theory Spec2Isabelle
  imports Complex_Main "HOL-Library.Sublist"
begin

section \<open>The manual backtesting simulator (app.py)\<close>

text \<open>
  The program is one Streamlit script. Every interaction of the operator (a button, a
  slider) runs the script once from top to bottom against the persistent
  \<open>st.session_state\<close>. The embedding models one such run as a function from the
  session state and the values the widgets return in that run to the session state the
  run leaves behind, together with the exception that ended it, if any. A run is taken
  as a whole: the script is followed from its first line to its last (or to the
  exception). Prices are pandas/numpy floats in the source; here they are real numbers,
  so every arithmetic statement below is about the exact value of the source's formula.
\<close>

subsection \<open>Data\<close>

text \<open>One row of the intraday frame. \<open>Datetime\<close> is the time of day in minutes after
  midnight (09:30 is 570, 16:00 is 960); the frame of one download covers one date.\<close>

record bar =
  Datetime :: nat
  Open :: real
  High :: real
  Low :: real
  Close :: real

type_synonym frame = "bar list"

text \<open>The dictionary appended to \<open>trade_data\<close> (keys "Date", "Ticker", "Entry Time",
  "Entry Price", "Exit Price", "Result", "PnL ($)").\<close>

record trade =
  Date :: string
  Ticker :: "string option"
  Entry_Time :: "nat option"
  Entry_Price :: real
  Exit_Price :: real
  Result :: string
  PnL :: real

text \<open>\<open>st.session_state\<close>. A field that holds Python's \<open>None\<close> is \<open>None\<close> here.\<close>

record session_state =
  trade_data :: "trade list"
  dates :: "string list"
  current_day :: nat
  running :: bool
  entered :: bool
  ticker :: "string option"
  entry_price :: "real option"
  entry_time :: "nat option"
  data :: "frame option"

text \<open>What the widgets return in one run of the script: the "Start Next Day" button,
  the two sliders, and the buttons "Enter TQQQ" (key \<open>t{i}\<close>) and "Enter SQQQ"
  (key \<open>s{i}\<close>) of row \<open>i\<close>.\<close>

record widgets =
  start_next_day :: bool
  tp_slider :: real
  sl_slider :: real
  enter_tqqq :: "nat \<Rightarrow> bool"
  enter_sqqq :: "nat \<Rightarrow> bool"

datatype error = KeyError | IndexError | TypeError | AttributeError

definition POSITION_SIZE :: real where
  "POSITION_SIZE = 2000000"

subsection \<open>The data provider\<close>

text \<open>\<open>DataFrame.between_time\<close> keeps the rows whose time of day lies between the two
  bounds, both included.\<close>

definition between_time :: "nat \<Rightarrow> nat \<Rightarrow> frame \<Rightarrow> frame" where
  "between_time start_time end_time df =
     filter (\<lambda>row. start_time \<le> Datetime row \<and> Datetime row \<le> end_time) df"

text \<open>\<open>get_intraday_data\<close>: the download (\<open>yf.download\<close>, outside the repository) is a
  parameter. An empty download is answered by \<open>None\<close>; otherwise the rows of the
  trading session are returned, re-indexed from 0.\<close>

definition get_intraday_data :: "(string \<Rightarrow> string \<Rightarrow> frame) \<Rightarrow> string \<Rightarrow> string \<Rightarrow> frame option" where
  "get_intraday_data download tk date =
     (let df = download tk date in
      if df = [] then None else Some (between_time 570 960 df))"

subsection \<open>Session initialisation and the sliders\<close>

text \<open>The block under \<open>if 'trade_data' not in st.session_state\<close>. The sampled dates
  (\<open>get_random_dates()\<close>, 50 of them) are a parameter. \<open>data\<close> is not assigned there;
  it is \<open>None\<close> until "Start Next Day" assigns it.\<close>

definition initial_state :: "string list \<Rightarrow> session_state" where
  "initial_state ds =
     \<lparr>trade_data = [], dates = ds, current_day = 0, running = False, entered = False,
      ticker = None, entry_price = None, entry_time = None, data = None\<rparr>"

text \<open>\<open>TP_PCT\<close> and \<open>SL_PCT\<close>: the slider's value divided by 100. The sliders are declared
  with the ranges 0.5 .. 5.0 and 0.2 .. 5.0.\<close>

definition TP_PCT :: "widgets \<Rightarrow> real" where
  "TP_PCT w = tp_slider w / 100"

definition SL_PCT :: "widgets \<Rightarrow> real" where
  "SL_PCT w = sl_slider w / 100"



subsection \<open>Start of a day and the walk over the bars\<close>

text \<open>\<open>if st.button("Start Next Day")\<close>.\<close>

definition start_block :: "widgets \<Rightarrow> session_state \<Rightarrow> session_state" where
  "start_block w s =
     (if start_next_day w \<and> current_day s < length (dates s)
      then s\<lparr>running := True, entered := False, ticker := None,
             entry_price := None, entry_time := None, data := None\<rparr>
      else s)"

definition enter_on :: "string \<Rightarrow> frame \<Rightarrow> nat \<Rightarrow> session_state \<Rightarrow> session_state" where
  "enter_on tk df i s =
     s\<lparr>ticker := Some tk, entry_price := Some (Open (df ! i)),
       entry_time := Some (Datetime (df ! i)), data := Some (drop i df), entered := True\<rparr>"

text \<open>The loop \<open>for i in range(len(tqqq_data))\<close>, from row \<open>i\<close> on. The line written
  for row \<open>i\<close> reads \<open>sqqq_data.loc[i, 'Open']\<close>, which raises \<open>KeyError\<close> when the SQQQ
  frame has no row \<open>i\<close>. Both buttons of a row are evaluated, TQQQ first.\<close>

function walk :: "widgets \<Rightarrow> frame \<Rightarrow> frame \<Rightarrow> nat \<Rightarrow> session_state \<Rightarrow> session_state \<times> error option" where
  "walk w tqqq_data sqqq_data i s =
     (if i < length tqqq_data then
        (if i < length sqqq_data then
           (let s1 = (if \<not> entered s then
                        (let sa = (if enter_tqqq w i then enter_on ''TQQQ'' tqqq_data i s else s)
                         in (if enter_sqqq w i then enter_on ''SQQQ'' sqqq_data i sa else sa))
                      else s)
            in if entered s1 then (s1, None)
               else walk w tqqq_data sqqq_data (Suc i) s1)
         else (s, Some KeyError))
      else (s, None))"
  by pat_completeness auto
termination
  by (relation "measure (\<lambda>(w, tqqq_data, sqqq_data, i, s). length tqqq_data - i)") auto

declare walk.simps [simp del]

text \<open>The block under \<open>if st.session_state.running and not st.session_state.entered\<close>.\<close>

definition simulation_logic :: "(string \<Rightarrow> string \<Rightarrow> frame) \<Rightarrow> widgets \<Rightarrow> session_state \<Rightarrow> session_state \<times> error option" where
  "simulation_logic download w s =
     (if running s \<and> \<not> entered s then
        (if current_day s < length (dates s) then
           (let date = dates s ! current_day s;
                tqqq_data = get_intraday_data download ''TQQQ'' date;
                sqqq_data = get_intraday_data download ''SQQQ'' date
            in case tqqq_data of
                 None \<Rightarrow> (s\<lparr>current_day := current_day s + 1, running := False\<rparr>, None)
               | Some tq \<Rightarrow>
                   (case sqqq_data of
                      None \<Rightarrow> (s\<lparr>current_day := current_day s + 1, running := False\<rparr>, None)
                    | Some sq \<Rightarrow> walk w tq sq 0 s))
         else (s, Some IndexError))
      else (s, None))"

subsection \<open>Exit evaluation and the trade record\<close>

text \<open>The loop \<open>for idx, row in st.session_state.data.iterrows()\<close>: take-profit is
  tested before stop-loss on each row, and the first hit ends the loop.\<close>

fun exit_scan :: "real \<Rightarrow> real \<Rightarrow> frame \<Rightarrow> (string \<times> real) option" where
  "exit_scan tp sl [] = None"
| "exit_scan tp sl (row # rows) =
     (if High row \<ge> tp then Some (''Win'', tp)
      else if Low row \<le> sl then Some (''Loss'', sl)
      else exit_scan tp sl rows)"

text \<open>The thresholds, the loop and the fallback \<open>if not result\<close>; \<open>iloc[-1]\<close> of an
  empty frame raises \<open>IndexError\<close>.\<close>

definition exit_evaluation :: "real \<Rightarrow> real \<Rightarrow> real \<Rightarrow> frame \<Rightarrow> error + (string \<times> real)" where
  "exit_evaluation tp_pct sl_pct entry df =
     (let tp = entry * (1 + tp_pct); sl = entry * (1 - sl_pct) in
      case exit_scan tp sl df of
        Some (result, exit_price) \<Rightarrow> Inr (result, exit_price)
      | None \<Rightarrow> (if df = [] then Inl IndexError
                 else Inr (''No TP/SL Hit'', Close (last df))))"

text \<open>The profit/loss formula. A float division by an entry price of 0 gives \<open>inf\<close> or
  \<open>nan\<close> in the source and 0 here; the statements below either assume a positive entry
  price or do not depend on the value of the quotient.\<close>

definition pnl_formula :: "real \<Rightarrow> real \<Rightarrow> real" where
  "pnl_formula exit_price entry = (exit_price - entry) * POSITION_SIZE / entry"

text \<open>Rounding to the nearest integer, ties to the even one (\<open>rint\<close>), and
  \<open>round(x, n)\<close> of a numpy float: \<open>rint(x * 10^n) / 10^n\<close>.\<close>

definition rint :: "real \<Rightarrow> int" where
  "rint x =
     (let f = \<lfloor>x\<rfloor>; d = x - of_int f in
      if d < 1 / 2 then f
      else if 1 / 2 < d then f + 1
      else if even f then f else f + 1)"

definition round_py :: "real \<Rightarrow> nat \<Rightarrow> real" where
  "round_py x n = of_int (rint (x * 10 ^ n)) / 10 ^ n"

text \<open>The block under \<open>if st.session_state.entered\<close>. The record is built before it is
  appended, so an exception leaves the session as it was.\<close>

definition after_trade_entered :: "real \<Rightarrow> real \<Rightarrow> session_state \<Rightarrow> session_state \<times> error option" where
  "after_trade_entered tp_pct sl_pct s =
     (case entry_price s of
        None \<Rightarrow> (s, Some TypeError)
      | Some entry \<Rightarrow>
          (case data s of
             None \<Rightarrow> (s, Some AttributeError)
           | Some df \<Rightarrow>
               (case exit_evaluation tp_pct sl_pct entry df of
                  Inl e \<Rightarrow> (s, Some e)
                | Inr (result, exit_price) \<Rightarrow>
                    (let pnl = pnl_formula exit_price entry in
                     if current_day s < length (dates s) then
                       (s\<lparr>trade_data := trade_data s @
                            [\<lparr>Date = dates s ! current_day s, Ticker = ticker s,
                              Entry_Time = entry_time s, Entry_Price = entry,
                              Exit_Price = exit_price, Result = result,
                              PnL = round_py pnl 2\<rparr>],
                          current_day := current_day s + 1,
                          running := False, entered := False\<rparr>, None)
                     else (s, Some IndexError)))))"

subsection \<open>Summary and the whole run\<close>

definition total_pnl :: "trade list \<Rightarrow> real" where
  "total_pnl ts = sum_list (map PnL ts)"

definition win_rate :: "trade list \<Rightarrow> real" where
  "win_rate ts =
     round_py (real (length (filter (\<lambda>t. Result t = ''Win'') ts)) / real (length ts) * 100) 2"

text \<open>The block under \<open>if st.session_state.current_day >= 50\<close>: the total PnL and the
  win rate it writes. A frame built from an empty list has no column \<open>'PnL ($)'\<close>.\<close>

definition summary :: "session_state \<Rightarrow> (error + real \<times> real) option" where
  "summary s =
     (if current_day s \<ge> 50 then
        Some (if trade_data s = [] then Inl KeyError
              else Inr (total_pnl (trade_data s), win_rate (trade_data s)))
      else None)"

definition script_run :: "(string \<Rightarrow> string \<Rightarrow> frame) \<Rightarrow> widgets \<Rightarrow> session_state \<Rightarrow> session_state \<times> error option" where
  "script_run download w s =
     (let s1 = start_block w s in
      case simulation_logic download w s1 of
        (s2, Some e) \<Rightarrow> (s2, Some e)
      | (s2, None) \<Rightarrow>
          (case (if entered s2 then after_trade_entered (TP_PCT w) (SL_PCT w) s2
                 else (s2, None)) of
             (s3, Some e) \<Rightarrow> (s3, Some e)
           | (s3, None) \<Rightarrow>
               (case summary s3 of
                  Some (Inl e) \<Rightarrow> (s3, Some e)
                | _ \<Rightarrow> (s3, None))))"

text \<open>A session: the script run once per interaction, each run starting from the
  session state the run before left behind (also when that run ended in an exception).\<close>

fun script_runs :: "(string \<Rightarrow> string \<Rightarrow> frame) \<Rightarrow> widgets list \<Rightarrow> session_state \<Rightarrow> session_state" where
  "script_runs download [] s = s"
| "script_runs download (w # ws) s = script_runs download ws (fst (script_run download w s))"



subsection \<open>Example data\<close>

text \<open>The bars of the specification's end-to-end example (entry price 100, take-profit
  1.5 per cent, stop-loss 0.5 per cent: thresholds 101.50 and 99.50), a third bar that
  reaches both thresholds, and a bar that reaches the stop-loss only.\<close>

definition bar1 :: bar where
  "bar1 = \<lparr>Datetime = 570, Open = 100, High = 1002 / 10, Low = 998 / 10, Close = 1001 / 10\<rparr>"

definition bar2 :: bar where
  "bar2 = \<lparr>Datetime = 571, Open = 1001 / 10, High = 1016 / 10, Low = 100, Close = 1015 / 10\<rparr>"

definition bar3 :: bar where
  "bar3 = \<lparr>Datetime = 572, Open = 1015 / 10, High = 102, Low = 90, Close = 95\<rparr>"

definition bar4 :: bar where
  "bar4 = \<lparr>Datetime = 571, Open = 1001 / 10, High = 1005 / 10, Low = 99, Close = 992 / 10\<rparr>"

text \<open>Fifty sampled dates and a download that has data for 2023-03-14 only: two bars per
  ticker, neither of which reaches a threshold of a TQQQ entry at 30 (30.45 and 29.85).\<close>

definition example_dates :: "string list" where
  "example_dates =
     [
      ''2023-03-14'', ''2023-07-04'', ''2023-06-15'', ''2023-03-19'', ''2023-07-22'',
      ''2023-11-30'', ''2023-01-25'', ''2023-02-07'', ''2023-10-02'', ''2023-02-18'',
      ''2023-07-07'', ''2023-10-26'', ''2023-01-30'', ''2023-09-17'', ''2023-04-20'',
      ''2023-01-20'', ''2023-02-14'', ''2023-08-11'', ''2023-08-03'', ''2023-02-05'',
      ''2023-05-04'', ''2023-02-16'', ''2023-10-10'', ''2023-08-06'', ''2023-01-31'',
      ''2023-10-17'', ''2023-03-05'', ''2023-04-25'', ''2023-11-19'', ''2023-11-18'',
      ''2023-02-01'', ''2023-10-23'', ''2023-10-27'', ''2023-07-23'', ''2023-01-26'',
      ''2023-04-24'', ''2023-01-24'', ''2023-10-13'', ''2023-03-10'', ''2023-05-29'',
      ''2023-03-15'', ''2023-10-04'', ''2023-03-02'', ''2023-10-20'', ''2023-06-07'',
      ''2023-10-14'', ''2023-12-16'', ''2023-04-03'', ''2023-02-22'', ''2023-10-25'']"

definition tqqq_bar1 :: bar where
  "tqqq_bar1 = \<lparr>Datetime = 570, Open = 30, High = 301 / 10, Low = 2995 / 100, Close = 3001 / 100\<rparr>"

definition tqqq_bar2 :: bar where
  "tqqq_bar2 = \<lparr>Datetime = 571, Open = 3001 / 100, High = 302 / 10, Low = 299 / 10, Close = 3001 / 100\<rparr>"

definition sqqq_bar1 :: bar where
  "sqqq_bar1 = \<lparr>Datetime = 570, Open = 40, High = 401 / 10, Low = 399 / 10, Close = 40\<rparr>"

definition sqqq_bar2 :: bar where
  "sqqq_bar2 = \<lparr>Datetime = 571, Open = 40, High = 402 / 10, Low = 3995 / 100, Close = 401 / 10\<rparr>"

definition example_download :: "string \<Rightarrow> string \<Rightarrow> frame" where
  "example_download tk date =
     (if date = ''2023-03-14''
      then (if tk = ''TQQQ'' then [tqqq_bar1, tqqq_bar2] else [sqqq_bar1, sqqq_bar2])
      else [])"

text \<open>A download that has no data for any date; one whose frame for the ticker \<open>early\<close>
  holds a single bar at 08:00; and one whose TQQQ frame is a single bar with a high above
  twice its open (it reaches every take-profit price \<open>30 * (1 + f)\<close> with \<open>f < 1\<close>).\<close>

definition no_data_download :: "string \<Rightarrow> string \<Rightarrow> frame" where
  "no_data_download tk date = []"

definition premarket_bar :: bar where
  "premarket_bar = \<lparr>Datetime = 480, Open = 40, High = 401 / 10, Low = 399 / 10, Close = 40\<rparr>"

definition premarket_download :: "string \<Rightarrow> string \<Rightarrow> string \<Rightarrow> frame" where
  "premarket_download early tk date =
     (if tk = early then [premarket_bar]
      else if tk = ''TQQQ'' then [tqqq_bar1, tqqq_bar2] else [sqqq_bar1, sqqq_bar2])"

definition spike_bar :: bar where
  "spike_bar = \<lparr>Datetime = 570, Open = 30, High = 70, Low = 2995 / 100, Close = 65\<rparr>"

definition spike_download :: "string \<Rightarrow> string \<Rightarrow> frame" where
  "spike_download tk date = (if tk = ''TQQQ'' then [spike_bar] else [sqqq_bar1])"

text \<open>The widget values of three kinds of run, with the sliders at their defaults 1.5 and
  0.5: nothing clicked, "Start Next Day" clicked, and "Start Next Day" together with
  "Enter TQQQ" on the first row. The last are widget values with a take-profit slider
  value of 150, which the slider as declared does not offer.\<close>

definition no_click :: widgets where
  "no_click = \<lparr>start_next_day = False, tp_slider = 15 / 10, sl_slider = 5 / 10,
               enter_tqqq = (\<lambda>i. False), enter_sqqq = (\<lambda>i. False)\<rparr>"

definition click_start :: widgets where
  "click_start = no_click\<lparr>start_next_day := True\<rparr>"

definition click_start_enter_tqqq :: widgets where
  "click_start_enter_tqqq = no_click\<lparr>start_next_day := True, enter_tqqq := (\<lambda>i. i = 0)\<rparr>"

definition wide_slider :: widgets where
  "wide_slider = click_start_enter_tqqq\<lparr>tp_slider := 150\<rparr>"

text \<open>The session state the walk leaves behind when "Enter TQQQ" is clicked on the first
  row of the frame \<open>df\<close> on the first day.\<close>

definition entered_example :: "frame \<Rightarrow> session_state" where
  "entered_example df = enter_on ''TQQQ'' df 0 (start_block click_start (initial_state example_dates))"

subsection \<open>The conditions of the specification\<close>



section \<open>Exit evaluation\<close>

lemmas example_defs = example_dates_def tqqq_bar1_def tqqq_bar2_def sqqq_bar1_def sqqq_bar2_def
  premarket_bar_def example_download_def premarket_download_def no_click_def click_start_def
  click_start_enter_tqqq_def bar1_def bar2_def bar3_def bar4_def entered_example_def
  wide_slider_def spike_bar_def spike_download_def no_data_download_def

lemmas run_defs = script_run_def start_block_def simulation_logic_def get_intraday_data_def
  between_time_def initial_state_def after_trade_entered_def exit_evaluation_def
  summary_def Let_def enter_on_def TP_PCT_def SL_PCT_def pnl_formula_def round_py_def
  rint_def POSITION_SIZE_def total_pnl_def win_rate_def

lemma exit_scan_no_hit:
  "list_all (\<lambda>row. High row < tp \<and> sl < Low row) rows \<Longrightarrow> exit_scan tp sl rows = None"
  by (induction rows) auto







text \<open>
  Claim C4. Over a non-empty sequence of bars none of which reaches the take-profit or
  the stop-loss price, the outcome is the no-threshold-hit classification (the string
  "No TP/SL Hit" in the source) and the exit price is the close of the last bar.
\<close>

theorem no_threshold_hit_exits_at_last_close:
  assumes "df \<noteq> []"
    and "\<forall>row \<in> set df. High row < entry * (1 + tp_pct) \<and> entry * (1 - sl_pct) < Low row"
  shows "exit_evaluation tp_pct sl_pct entry df = Inr (''No TP/SL Hit'', Close (last df))"
  using assms exit_scan_no_hit [of "entry * (1 + tp_pct)" "entry * (1 - sl_pct)" df]
  by (simp add: exit_evaluation_def list_all_iff)

theorem no_threshold_hit_exits_at_last_close_witness:
  "[bar1, bar1\<lparr>Close := 100\<rparr>] \<noteq> [] \<and>
   High bar1 < (100::real) * (1 + 15 / 1000) \<and> (100::real) * (1 - 5 / 1000) < Low bar1 \<and>
   exit_evaluation (15 / 1000) (5 / 1000) 100 [bar1, bar1\<lparr>Close := 100\<rparr>]
     = Inr (''No TP/SL Hit'', 100)"
  using no_threshold_hit_exits_at_last_close
          [of "[bar1, bar1\<lparr>Close := 100\<rparr>]" 100 "15 / 1000" "5 / 1000"]
  by (simp add: bar1_def)

section \<open>One run of the script\<close>

lemma exit_scan_Some:
  "exit_scan tp sl df = Some (r, x) \<Longrightarrow> (r = ''Win'' \<and> x = tp) \<or> (r = ''Loss'' \<and> x = sl)"
  by (induction df) (auto split: if_splits)


lemma after_trade_entered_ok:
  assumes "after_trade_entered tp_pct sl_pct s = (s', None)"
  shows "\<exists>entry df r x.
           entry_price s = Some entry \<and> data s = Some df \<and>
           exit_evaluation tp_pct sl_pct entry df = Inr (r, x) \<and>
           current_day s < length (dates s) \<and>
           s' = s\<lparr>trade_data := trade_data s @
                      [\<lparr>Date = dates s ! current_day s, Ticker = ticker s,
                        Entry_Time = entry_time s, Entry_Price = entry,
                        Exit_Price = x, Result = r,
                        PnL = round_py (pnl_formula x entry) 2\<rparr>],
                    current_day := current_day s + 1,
                    running := False, entered := False\<rparr>"
  using assms
  by (auto simp: after_trade_entered_def Let_def split: option.splits sum.splits if_splits prod.splits)




lemma start_block_fields:
  "trade_data (start_block w s) = trade_data s"
  "dates (start_block w s) = dates s"
  "current_day (start_block w s) = current_day s"
  by (simp_all add: start_block_def)


lemma script_run_fst:
  assumes "simulation_logic download w (start_block w s) = (s2, e2)"
  shows "fst (script_run download w s) =
           (if e2 = None \<and> entered s2
            then fst (after_trade_entered (TP_PCT w) (SL_PCT w) s2) else s2)"
  using assms
  by (auto simp: script_run_def Let_def split: option.splits sum.splits prod.splits)





section \<open>The trade record\<close>








text \<open>
  Claim C9. For a recorded trade with a positive entry price and both fractions
  strictly between 0 and 1, the unrounded profit/loss (the value of the formula at the
  record's exit and entry price) is positive when the outcome is "Win" and negative when
  it is "Loss".
\<close>

theorem winning_trade_gains_losing_trade_loses:
  assumes "after_trade_entered tp_pct sl_pct s = (s', None)"
    and "entry_price s = Some entry" and "0 < entry"
    and "0 < tp_pct" and "tp_pct < 1" and "0 < sl_pct" and "sl_pct < 1"
  shows "\<exists>t. trade_data s' = trade_data s @ [t] \<and>
           (Result t = ''Win'' \<longrightarrow> 0 < pnl_formula (Exit_Price t) (Entry_Price t)) \<and>
           (Result t = ''Loss'' \<longrightarrow> pnl_formula (Exit_Price t) (Entry_Price t) < 0)"
proof -
  from after_trade_entered_ok [OF assms(1)] assms(2) obtain df r x where
    ev: "exit_evaluation tp_pct sl_pct entry df = Inr (r, x)"
    and s': "s' = s\<lparr>trade_data := trade_data s @
                      [\<lparr>Date = dates s ! current_day s, Ticker = ticker s,
                        Entry_Time = entry_time s, Entry_Price = entry,
                        Exit_Price = x, Result = r,
                        PnL = round_py (pnl_formula x entry) 2\<rparr>],
                    current_day := current_day s + 1,
                    running := False, entered := False\<rparr>"
    by auto
  have win: "r = ''Win'' \<longrightarrow> x = entry * (1 + tp_pct)"
    and loss: "r = ''Loss'' \<longrightarrow> x = entry * (1 - sl_pct)"
    using ev exit_scan_Some [of "entry * (1 + tp_pct)" "entry * (1 - sl_pct)" df]
    by (auto simp: exit_evaluation_def split: option.splits if_splits)
  have "pnl_formula (entry * (1 + tp_pct)) entry = tp_pct * POSITION_SIZE"
    using assms(3) by (simp add: pnl_formula_def algebra_simps)
  moreover have "pnl_formula (entry * (1 - sl_pct)) entry = - sl_pct * POSITION_SIZE"
    using assms(3) by (simp add: pnl_formula_def algebra_simps)
  ultimately show ?thesis
    using s' win loss assms(4,6) by (simp add: POSITION_SIZE_def)
qed

text \<open>A winning trade (bars 1 to 3) and a losing trade (bar 1, then a bar that falls to
  99), both entered at 100.\<close>

theorem winning_trade_gains_losing_trade_loses_witness:
  "(\<exists>t. trade_data (fst (after_trade_entered (15 / 1000) (5 / 1000) (entered_example [bar1, bar2, bar3]))) = [t] \<and>
        Result t = ''Win'' \<and> 0 < pnl_formula (Exit_Price t) (Entry_Price t)) \<and>
   (\<exists>t. trade_data (fst (after_trade_entered (15 / 1000) (5 / 1000) (entered_example [bar1, bar4]))) = [t] \<and>
        Result t = ''Loss'' \<and> pnl_formula (Exit_Price t) (Entry_Price t) < 0)"
proof -
  have pct: "(0::real) < 15 / 1000" "(15 / 1000 :: real) < 1" "(0::real) < 5 / 1000" "(5 / 1000 :: real) < 1"
    and pos: "(0::real) < 100"
    by simp_all
  let ?w = "entered_example [bar1, bar2, bar3]"
  let ?l = "entered_example [bar1, bar4]"
  have runw: "after_trade_entered (15 / 1000) (5 / 1000) ?w
                = (fst (after_trade_entered (15 / 1000) (5 / 1000) ?w), None)"
    and runl: "after_trade_entered (15 / 1000) (5 / 1000) ?l
                = (fst (after_trade_entered (15 / 1000) (5 / 1000) ?l), None)"
    by (simp_all add: example_defs run_defs)
  have epw: "entry_price ?w = Some 100" and epl: "entry_price ?l = Some 100"
    by (simp_all add: example_defs run_defs)
  have resw: "Result (last (trade_data (fst (after_trade_entered (15 / 1000) (5 / 1000) ?w)))) = ''Win''"
    and resl: "Result (last (trade_data (fst (after_trade_entered (15 / 1000) (5 / 1000) ?l)))) = ''Loss''"
    and tdw: "trade_data ?w = []" and tdl: "trade_data ?l = []"
    by (simp_all add: example_defs run_defs)
  from winning_trade_gains_losing_trade_loses [OF runw epw pos pct] resw tdw
  have "\<exists>t. trade_data (fst (after_trade_entered (15 / 1000) (5 / 1000) ?w)) = [t] \<and>
        Result t = ''Win'' \<and> 0 < pnl_formula (Exit_Price t) (Entry_Price t)"
    by auto
  moreover
  from winning_trade_gains_losing_trade_loses [OF runl epl pos pct] resl tdl
  have "\<exists>t. trade_data (fst (after_trade_entered (15 / 1000) (5 / 1000) ?l)) = [t] \<and>
        Result t = ''Loss'' \<and> pnl_formula (Exit_Price t) (Entry_Price t) < 0"
    by auto
  ultimately show ?thesis by blast
qed

section \<open>Days that end without a trade\<close>

lemma walk_no_entry:
  assumes "\<not> entered s" and "length tq \<le> length sq"
    and "\<forall>j<length tq. \<not> enter_tqqq w j \<and> \<not> enter_sqqq w j"
  shows "walk w tq sq i s = (s, None)"
  using assms
proof (induction w tq sq i s rule: walk.induct)
  case (1 w tq sq i s)
  show ?case
  proof (cases "i < length tq")
    case False
    then show ?thesis by (simp add: walk.simps [of w tq sq i s])
  next
    case True
    with "1.prems" have "walk w tq sq i s = walk w tq sq (Suc i) s"
      by (simp add: walk.simps [of w tq sq i s])
    also have "\<dots> = (s, None)"
      using "1.IH" [of s] True "1.prems" by simp
    finally show ?thesis .
  qed
qed

lemma summary_quiet:
  "current_day s < 50 \<Longrightarrow> summary s = None"
  by (simp add: summary_def)

text \<open>
  Claim C7, amended. A run in which the day is running, both frames are present, the
  loop reaches the last TQQQ row and no "Enter" button is clicked leaves the session as
  the "Start Next Day" block left it: no record is appended, the total PnL is
  unchanged, the session is still running, and the day index is unchanged (it does not
  advance); the next run walks the same date again.
\<close>

theorem day_without_entry_stays_open:
  assumes "running (start_block w s)" and "\<not> entered (start_block w s)"
    and "current_day s < length (dates s)"
    and "get_intraday_data download ''TQQQ'' (dates s ! current_day s) = Some tq"
    and "get_intraday_data download ''SQQQ'' (dates s ! current_day s) = Some sq"
    and "length tq \<le> length sq"
    and "\<forall>i<length tq. \<not> enter_tqqq w i \<and> \<not> enter_sqqq w i"
  shows "fst (script_run download w s) = start_block w s \<and>
         trade_data (fst (script_run download w s)) = trade_data s \<and>
         total_pnl (trade_data (fst (script_run download w s))) = total_pnl (trade_data s) \<and>
         current_day (fst (script_run download w s)) = current_day s \<and>
         running (fst (script_run download w s)) \<and>
         (current_day s < 50 \<longrightarrow> snd (script_run download w s) = None)"
proof -
  let ?s1 = "start_block w s"
  have sim: "simulation_logic download w ?s1 = (?s1, None)"
    using assms walk_no_entry [OF assms(2,6,7), of 0]
    by (simp add: simulation_logic_def Let_def start_block_fields)
  then have st: "fst (script_run download w s) = ?s1"
    using assms(2) by (simp add: script_run_fst)
  have "current_day s < 50 \<longrightarrow> snd (script_run download w s) = None"
    using sim assms(2) summary_quiet [of ?s1]
    by (simp add: script_run_def Let_def start_block_fields)
  with st assms(1) show ?thesis by (simp add: start_block_fields)
qed

theorem day_without_entry_stays_open_witness:
  "get_intraday_data example_download ''TQQQ'' (example_dates ! 0) = Some [tqqq_bar1, tqqq_bar2] \<and>
   get_intraday_data example_download ''SQQQ'' (example_dates ! 0) = Some [sqqq_bar1, sqqq_bar2] \<and>
   fst (script_run example_download click_start (initial_state example_dates))
     = start_block click_start (initial_state example_dates) \<and>
   trade_data (fst (script_run example_download click_start (initial_state example_dates))) = [] \<and>
   current_day (fst (script_run example_download click_start (initial_state example_dates))) = 0 \<and>
   running (fst (script_run example_download click_start (initial_state example_dates))) \<and>
   snd (script_run example_download click_start (initial_state example_dates)) = None"
proof -
  let ?s = "initial_state example_dates"
  have r: "running (start_block click_start ?s)" and e: "\<not> entered (start_block click_start ?s)"
    and c: "current_day ?s < length (dates ?s)"
    by (simp_all add: example_defs run_defs)
  have tq: "get_intraday_data example_download ''TQQQ'' (dates ?s ! current_day ?s) = Some [tqqq_bar1, tqqq_bar2]"
    and sq: "get_intraday_data example_download ''SQQQ'' (dates ?s ! current_day ?s) = Some [sqqq_bar1, sqqq_bar2]"
    by (simp_all add: example_defs run_defs)
  have l: "length [tqqq_bar1, tqqq_bar2] \<le> length [sqqq_bar1, sqqq_bar2]" by simp
  have n: "\<forall>i<length [tqqq_bar1, tqqq_bar2]. \<not> enter_tqqq click_start i \<and> \<not> enter_sqqq click_start i"
    by (simp add: example_defs)
  from day_without_entry_stays_open [OF r e c tq sq l n] tq sq r
  show ?thesis by (simp add: initial_state_def start_block_fields)
qed

text \<open>Claim C7 as stated fails: on 2023-03-14 both frames are present; the run that
  starts the day and clicks no "Enter" button ends with the day index still 0.\<close>

theorem day_without_entry_does_not_advance:
  "get_intraday_data example_download ''TQQQ'' ''2023-03-14'' = Some [tqqq_bar1, tqqq_bar2] \<and>
   get_intraday_data example_download ''SQQQ'' ''2023-03-14'' = Some [sqqq_bar1, sqqq_bar2] \<and>
   script_run example_download click_start (initial_state example_dates)
     = (initial_state example_dates\<lparr>running := True\<rparr>, None) \<and>
   current_day (initial_state example_dates\<lparr>running := True\<rparr>)
     \<noteq> current_day (initial_state example_dates) + 1"
  by (simp add: example_defs run_defs walk.simps)

text \<open>When the frame of either ticker is absent (\<open>None\<close>), the day is skipped: the log is
  unchanged and the day index advances by one. The run ends without an exception unless
  this was the fiftieth day and the log is empty, in which case the summary block
  raises \<open>KeyError\<close>.\<close>

lemma absent_data_skips_day:
  assumes "running (start_block w s)" and "\<not> entered (start_block w s)"
    and "current_day s < length (dates s)"
    and "get_intraday_data download ''TQQQ'' (dates s ! current_day s) = None \<or>
         get_intraday_data download ''SQQQ'' (dates s ! current_day s) = None"
  shows "fst (script_run download w s)
           = (start_block w s)\<lparr>current_day := current_day s + 1, running := False\<rparr>"
    and "trade_data (fst (script_run download w s)) = trade_data s"
    and "current_day (fst (script_run download w s)) = current_day s + 1"
    and "snd (script_run download w s)
           = (if 50 \<le> current_day s + 1 \<and> trade_data s = [] then Some KeyError else None)"
proof -
  let ?s1 = "start_block w s"
  let ?s2 = "?s1\<lparr>current_day := current_day s + 1, running := False\<rparr>"
  have sim: "simulation_logic download w ?s1 = (?s2, None)"
    using assms by (auto simp: simulation_logic_def Let_def start_block_fields split: option.splits)
  then show st: "fst (script_run download w s) = ?s2"
    using assms(2) by (simp add: script_run_fst)
  then show "trade_data (fst (script_run download w s)) = trade_data s"
    and "current_day (fst (script_run download w s)) = current_day s + 1"
    by (simp_all add: start_block_fields)
  show "snd (script_run download w s)
           = (if 50 \<le> current_day s + 1 \<and> trade_data s = [] then Some KeyError else None)"
    using sim assms(2)
    by (simp add: script_run_def Let_def summary_def start_block_fields)
qed

text \<open>
  Claim C8: a day for which the data provider returns an empty or absent bar sequence
  for either ticker is skipped, with the log unchanged, the day index advanced by one
  and no fatal error. \<open>get_intraday_data\<close> answers \<open>None\<close> only for an empty download; a
  download whose rows all lie outside 09:30 to 16:00 gives an empty frame, and the day
  is not skipped. With an empty SQQQ frame the run ends in \<open>KeyError\<close> at the first row;
  with an empty TQQQ frame the loop body never runs; in both the day index stays 0 and
  the session stays running.
\<close>

theorem empty_frame_is_not_skipped:
  "get_intraday_data (premarket_download ''SQQQ'') ''SQQQ'' ''2023-03-14'' = Some [] \<and>
   script_run (premarket_download ''SQQQ'') click_start (initial_state example_dates)
     = (initial_state example_dates\<lparr>running := True\<rparr>, Some KeyError) \<and>
   get_intraday_data (premarket_download ''TQQQ'') ''TQQQ'' ''2023-03-14'' = Some [] \<and>
   script_run (premarket_download ''TQQQ'') click_start (initial_state example_dates)
     = (initial_state example_dates\<lparr>running := True\<rparr>, None)"
  by (simp add: example_defs run_defs walk.simps)

section \<open>The take-profit and stop-loss fractions\<close>




section \<open>Sessions\<close>






text \<open>Runs that click "Start Next Day" on dates without TQQQ data skip one day each.\<close>

lemma skipping_runs:
  assumes "\<not> entered s" and "start_next_day w"
    and "current_day s + n \<le> length (dates s)"
    and "\<forall>d \<in> set (drop (current_day s) (dates s)). get_intraday_data download ''TQQQ'' d = None"
  shows "trade_data (script_runs download (replicate n w) s) = trade_data s \<and>
         current_day (script_runs download (replicate n w) s) = current_day s + n \<and>
         dates (script_runs download (replicate n w) s) = dates s \<and>
         \<not> entered (script_runs download (replicate n w) s)"
  using assms
proof (induction n arbitrary: s)
  case 0
  then show ?case by simp
next
  case (Suc n)
  let ?s1 = "fst (script_run download w s)"
  have cd: "current_day s < length (dates s)" using Suc.prems(3) by simp
  have r: "running (start_block w s)" and e: "\<not> entered (start_block w s)"
    using Suc.prems(1,2) cd by (simp_all add: start_block_def)
  have "dates s ! current_day s \<in> set (drop (current_day s) (dates s))"
    using cd by (metis Cons_nth_drop_Suc list.set_intros(1))
  then have none: "get_intraday_data download ''TQQQ'' (dates s ! current_day s) = None"
    using Suc.prems(4) by blast
  have s1: "?s1 = (start_block w s)\<lparr>current_day := current_day s + 1, running := False\<rparr>"
    using absent_data_skips_day(1) [OF r e cd] none by simp
  have f1: "trade_data ?s1 = trade_data s" "current_day ?s1 = Suc (current_day s)"
    "dates ?s1 = dates s" "\<not> entered ?s1"
    using s1 e by (simp_all add: start_block_fields)
  have "set (drop (Suc (current_day s)) (dates s)) \<subseteq> set (drop (current_day s) (dates s))"
    by (rule set_drop_subset_set_drop) simp
  then have rest: "\<forall>d \<in> set (drop (current_day ?s1) (dates ?s1)). get_intraday_data download ''TQQQ'' d = None"
    using Suc.prems(4) f1 by auto
  have "current_day ?s1 + n \<le> length (dates ?s1)" using Suc.prems(3) f1 by simp
  from Suc.IH [OF f1(4) Suc.prems(2) this rest] f1 show ?case by simp
qed



text \<open>A session in which no date has data: the run that skips the fiftieth day advances
  the day index to 50 and then ends in the summary block's \<open>KeyError\<close>, the log being
  empty.\<close>

lemma all_days_skipped_ends_in_key_error:
  "trade_data (script_runs no_data_download (replicate 49 click_start) (initial_state example_dates)) = [] \<and>
   current_day (script_runs no_data_download (replicate 49 click_start) (initial_state example_dates)) = 49 \<and>
   current_day (fst (script_run no_data_download click_start
     (script_runs no_data_download (replicate 49 click_start) (initial_state example_dates)))) = 50 \<and>
   snd (script_run no_data_download click_start
     (script_runs no_data_download (replicate 49 click_start) (initial_state example_dates)))
     = Some KeyError"
proof -
  let ?init = "initial_state example_dates"
  let ?s = "script_runs no_data_download (replicate 49 click_start) ?init"
  have st: "start_next_day click_start" by (simp add: example_defs)
  have e0: "\<not> entered ?init" and len: "current_day ?init + 49 \<le> length (dates ?init)"
    by (simp_all add: initial_state_def example_dates_def)
  have none: "get_intraday_data no_data_download ''TQQQ'' d = None" for d
    by (simp add: get_intraday_data_def no_data_download_def)
  have f0: "trade_data ?init = []" "current_day ?init = 0" "dates ?init = example_dates"
    by (simp_all add: initial_state_def)
  from skipping_runs [OF e0 st len, of no_data_download] none f0
  have S: "trade_data ?s = []" "current_day ?s = 49" "dates ?s = example_dates" "\<not> entered ?s"
    by simp_all
  have cd: "current_day ?s < length (dates ?s)" by (simp add: S) (simp add: example_dates_def)
  have r: "running (start_block click_start ?s)" and e: "\<not> entered (start_block click_start ?s)"
    using S(4) st cd by (simp_all add: start_block_def)
  from absent_data_skips_day(3,4) [OF r e cd, of no_data_download] none S
  show ?thesis by simp
qed

end
